theory Spec2Isabelle
  imports
    Main
    "HOL-Library.Char_ord"
    "HOL-Library.List_Lexorder"
    "HOL-Library.AList"
begin

section \<open>Go values: strings, maps, 64-bit integers, errors\<close>

text \<open>
  A Go string is a sequence of bytes and so is a HOL \<open>string\<close>; the order on strings
  (\<open>strings.Compare\<close>, \<open><\<close>, \<open>sort.Strings\<close>) is the bytewise lexicographic order, which
  is the order of \<open>List_Lexorder\<close> over \<open>Char_ord\<close>.
\<close>

type_synonym bytes = string

definition strings_Compare :: "string \<Rightarrow> string \<Rightarrow> int" where
  "strings_Compare a b = (if a = b then 0 else if a < b then - 1 else 1)"

definition strings_HasPrefix :: "string \<Rightarrow> string \<Rightarrow> bool" where
  "strings_HasPrefix s prefix \<longleftrightarrow> length prefix \<le> length s \<and> take (length prefix) s = prefix"

text \<open>
  A Go map is an association list with one pair per key: \<open>map_of\<close> reads it,
  \<open>AList.update\<close> stores into it, \<open>AList.delete\<close> is the built-in \<open>delete\<close>, and
  \<open>range\<close> visits the pairs in the list's order, which stands for the unspecified
  iteration order of Go. Reading an absent key gives the zero value of the value type.
\<close>

type_synonym ('k, 'v) gomap = "('k \<times> 'v) list"

text \<open>
  \<open>int64\<close> values are integers in \<open>[-2^63, 2^63)\<close>; \<open>wrap64\<close> is the two's complement
  wrap-around of an arithmetic result.
\<close>

definition wrap64 :: "int \<Rightarrow> int" where
  "wrap64 x = (x + 2 ^ 63) mod 2 ^ 64 - 2 ^ 63"

definition is_int64 :: "int \<Rightarrow> bool" where
  "is_int64 x \<longleftrightarrow> - (2 ^ 63) \<le> x \<and> x < 2 ^ 63"

text \<open>
  All Go errors are values of one type. The first group are the ledger's own sentinel
  errors, the second the errors of the object layer that the S3 frontend sees, the third
  the failures of the datastore and of the remote node. \<open>Panic\<close> is not a Go error
  value: it stands for a run-time panic, after which the call does not return.
\<close>

datatype error =
    ErrLedgerBucketExists
  | ErrLedgerBucketDoesNotExist
  | ErrLedgerObjectDoesNotExist
  | ErrInvalidUploadID
  | BucketExists string
  | BucketNotFound string
  | ObjectNotFound string string
  | InvalidUploadID string
  | InvalidRange int int int
  | ErrDatastoreNotFound
  | ErrDAGUnavailable
  | ErrNotFound
  | ErrCIDMismatch
  | ErrCorrupt
  | ErrUnexpectedData
  | ErrDecode
  | ErrOther string
  | Panic string

text \<open>
  Modelled from the spec: \<open>xObjects.toMinioErr\<close> is not among the sources. Section 4.6 of
  the specification gives its table: \<open>BucketNotFound \<rightarrow> NoSuchBucket\<close>,
  \<open>ObjectNotFound \<rightarrow> NoSuchKey\<close>, \<open>BucketExists \<rightarrow> BucketAlreadyOwnedByYou\<close>,
  \<open>InvalidUploadID \<rightarrow> NoSuchUpload\<close>; every other error passes through, and \<open>nil\<close>
  stays \<open>nil\<close>.
\<close>

fun toMinioErr :: "error option \<Rightarrow> string \<Rightarrow> string \<Rightarrow> string \<Rightarrow> error option" where
  "toMinioErr None bucket object uploadID = None"
| "toMinioErr (Some ErrLedgerBucketDoesNotExist) bucket object uploadID = Some (BucketNotFound bucket)"
| "toMinioErr (Some ErrLedgerObjectDoesNotExist) bucket object uploadID = Some (ObjectNotFound bucket object)"
| "toMinioErr (Some ErrLedgerBucketExists) bucket object uploadID = Some (BucketExists bucket)"
| "toMinioErr (Some ErrInvalidUploadID) bucket object uploadID = Some (InvalidUploadID uploadID)"
| "toMinioErr (Some e) bucket object uploadID = Some e"

definition minioErr :: "error \<Rightarrow> string \<Rightarrow> string \<Rightarrow> string \<Rightarrow> error" where
  "minioErr e bucket object uploadID = the (toMinioErr (Some e) bucket object uploadID)"

section \<open>Object metadata\<close>

text \<open>
  \<open>ObjectInfo\<close> is the protocol message of the same name; \<open>Size\<close> is its field
  \<open>Size_\<close>, and \<open>ModTime\<close> is a time in nanoseconds, with \<open>0\<close> for Go's zero time.
\<close>

record ObjectInfo =
  Bucket :: string
  Name :: string
  Size :: int
  ModTime :: int
  ContentEncoding :: string
  ContentDisposition :: string
  ContentLanguage :: string
  ContentType :: string

definition zeroObjectInfo :: ObjectInfo where
  "zeroObjectInfo = \<lparr>Bucket = [], Name = [], Size = 0, ModTime = 0, ContentEncoding = [],
     ContentDisposition = [], ContentLanguage = [], ContentType = []\<rparr>"

text \<open>\<open>strings.ToLower\<close> on the ASCII letters, which are all the four header names contain.\<close>

definition toLowerChar :: "char \<Rightarrow> char" where
  "toLowerChar c =
     (if CHR ''A'' \<le> c \<and> c \<le> CHR ''Z'' then char_of (of_char c + (32 :: nat)) else c)"

definition strings_ToLower :: "string \<Rightarrow> string" where
  "strings_ToLower s = map toLowerChar s"

text \<open>One turn of the loop over \<open>opts.UserDefined\<close>, in \<open>PutObject\<close> and \<open>newObjectInfo\<close>.\<close>

definition setUserDefined :: "ObjectInfo \<Rightarrow> string \<times> string \<Rightarrow> ObjectInfo" where
  "setUserDefined obinfo kv =
     (let k = strings_ToLower (fst kv); v = snd kv in
      if k = ''content-encoding'' then obinfo\<lparr>ContentEncoding := v\<rparr>
      else if k = ''content-disposition'' then obinfo\<lparr>ContentDisposition := v\<rparr>
      else if k = ''content-language'' then obinfo\<lparr>ContentLanguage := v\<rparr>
      else if k = ''content-type'' then obinfo\<lparr>ContentType := v\<rparr>
      else obinfo)"

section \<open>The ledger store kept under one datastore key\<close>

text \<open>
  The first ledger store (\<open>LedgerStore\<close>) keeps the whole ledger, serialized, under
  \<open>ledgerKey\<close> in a datastore. Every method reads the ledger from the datastore into a
  fresh \<open>Ledger\<close> value (\<open>getLedger\<close>), works on that value, and the datastore changes
  only where the method calls \<open>putLedger\<close>.
\<close>

record LedgerObjectEntry =
  ObjectEntry_Name :: string
  ObjectEntry_IpfsHash :: string

record LedgerBucketEntry =
  Objects :: "(string, LedgerObjectEntry) gomap"
  BucketEntry_Name :: string
  BucketEntry_IpfsHash :: string

record Ledger =
  Buckets :: "(string, LedgerBucketEntry) gomap"

text \<open>
  The state of a \<open>LedgerStore\<close> is what its datastore holds under \<open>ledgerKey\<close>:
  nothing, or a ledger. \<open>Marshal\<close> followed by \<open>Unmarshal\<close> gives the ledger back, up
  to the difference between a nil and an empty map, which the association lists do not
  make: every store into a map of this ledger is guarded in the source (by a test for nil, or
  by the presence of a key),
  and reading, ranging over and deleting from a nil map behave as for an empty one.
  The model takes \<open>Put\<close> on the datastore to succeed.
\<close>

record LedgerStore =
  ds :: "Ledger option"

definition zeroObjectEntry :: LedgerObjectEntry where
  "zeroObjectEntry = \<lparr>ObjectEntry_Name = [], ObjectEntry_IpfsHash = []\<rparr>"

definition zeroBucketEntry :: LedgerBucketEntry where
  "zeroBucketEntry = \<lparr>Objects = [], BucketEntry_Name = [], BucketEntry_IpfsHash = []\<rparr>"

definition GetBuckets :: "Ledger \<Rightarrow> string \<Rightarrow> LedgerBucketEntry" where
  "GetBuckets ledger name =
     (case map_of (Buckets ledger) name of None \<Rightarrow> zeroBucketEntry | Some e \<Rightarrow> e)"

definition GetObjects :: "LedgerBucketEntry \<Rightarrow> string \<Rightarrow> LedgerObjectEntry" where
  "GetObjects bucket name =
     (case map_of (Objects bucket) name of None \<Rightarrow> zeroObjectEntry | Some e \<Rightarrow> e)"

definition getLedger :: "LedgerStore \<Rightarrow> error + Ledger" where
  "getLedger le = (case ds le of None \<Rightarrow> Inl ErrDatastoreNotFound | Some ledger \<Rightarrow> Inr ledger)"

definition putLedger :: "LedgerStore \<Rightarrow> Ledger \<Rightarrow> error option \<times> LedgerStore" where
  "putLedger le ledger = (None, le\<lparr>ds := Some ledger\<rparr>)"

definition createLedgerIfNotExist :: "LedgerStore \<Rightarrow> LedgerStore" where
  "createLedgerIfNotExist le =
     (case getLedger le of Inr _ \<Rightarrow> le | Inl _ \<Rightarrow> le\<lparr>ds := Some \<lparr>Buckets = []\<rparr>\<rparr>)"

definition newLedgerStore :: "Ledger option \<Rightarrow> LedgerStore" where
  "newLedgerStore stored = createLedgerIfNotExist \<lparr>ds = stored\<rparr>"

definition objectExists :: "Ledger \<Rightarrow> string \<Rightarrow> string \<Rightarrow> error option" where
  "objectExists ledger bucket object =
     (if BucketEntry_Name (GetBuckets ledger bucket) = [] then Some ErrLedgerBucketDoesNotExist
      else if ObjectEntry_Name (GetObjects (GetBuckets ledger bucket) object) = []
        then Some ErrLedgerObjectDoesNotExist
      else None)"

definition bucketExists :: "Ledger \<Rightarrow> string \<Rightarrow> bool" where
  "bucketExists ledger name \<longleftrightarrow> BucketEntry_Name (GetBuckets ledger name) \<noteq> []"

definition NewBucket :: "LedgerStore \<Rightarrow> string \<Rightarrow> string \<Rightarrow> error option \<times> LedgerStore" where
  "NewBucket le name hash =
     (case getLedger le of
        Inl err \<Rightarrow> (Some err, le)
      | Inr ledger \<Rightarrow>
          if bucketExists ledger name then (Some ErrLedgerBucketExists, le)
          else putLedger le (ledger\<lparr>Buckets :=
                 AList.update name
                   \<lparr>Objects = [], BucketEntry_Name = name, BucketEntry_IpfsHash = hash\<rparr>
                   (Buckets ledger)\<rparr>))"


text \<open>
  \<open>RemoveObject\<close> deletes the entry from the ledger value it has read and returns \<open>nil\<close>:
  there is no \<open>putLedger\<close> on this path, so the changed ledger \<open>ledger'\<close> is dropped and
  the datastore keeps what it held.
\<close>

definition RemoveObject :: "LedgerStore \<Rightarrow> string \<Rightarrow> string \<Rightarrow> error option \<times> LedgerStore" where
  "RemoveObject le bucketName objectName =
     (case getLedger le of
        Inl err \<Rightarrow> (Some err, le)
      | Inr ledger \<Rightarrow>
          (case objectExists ledger bucketName objectName of
             Some err \<Rightarrow> (Some err, le)
           | None \<Rightarrow>
               let bucket = GetBuckets ledger bucketName;
                   ledger' = ledger\<lparr>Buckets :=
                     AList.update bucketName
                       (bucket\<lparr>Objects := AList.delete objectName (Objects bucket)\<rparr>)
                       (Buckets ledger)\<rparr>
               in (None, le)))"

definition AddObjectToBucket ::
  "LedgerStore \<Rightarrow> string \<Rightarrow> string \<Rightarrow> string \<Rightarrow> error option \<times> LedgerStore" where
  "AddObjectToBucket le bucketName objectName objectHash =
     (case getLedger le of
        Inl err \<Rightarrow> (Some err, le)
      | Inr ledger \<Rightarrow>
          if \<not> bucketExists ledger bucketName then (Some ErrLedgerBucketDoesNotExist, le)
          else
            let bucket = GetBuckets ledger bucketName;
                entry = \<lparr>ObjectEntry_Name = objectName, ObjectEntry_IpfsHash = objectHash\<rparr>
            in putLedger le (ledger\<lparr>Buckets :=
                 AList.update bucketName
                   (bucket\<lparr>Objects := AList.update objectName entry (Objects bucket)\<rparr>)
                   (Buckets ledger)\<rparr>))"



definition ObjectExists :: "LedgerStore \<Rightarrow> string \<Rightarrow> string \<Rightarrow> error option" where
  "ObjectExists le bucketName objectName =
     (case getLedger le of
        Inl err \<Rightarrow> Some err
      | Inr ledger \<Rightarrow> objectExists ledger bucketName objectName)"

definition GetObjectHash_ledger :: "LedgerStore \<Rightarrow> string \<Rightarrow> string \<Rightarrow> error + string" where
  "GetObjectHash_ledger le bucketName objectName =
     (case getLedger le of
        Inl err \<Rightarrow> Inl err
      | Inr ledger \<Rightarrow>
          if BucketEntry_Name (GetBuckets ledger bucketName) = [] then Inl ErrLedgerBucketDoesNotExist
          else
            let bucket = GetBuckets ledger bucketName in
            if ObjectEntry_Name (GetObjects bucket objectName) = [] then Inl ErrLedgerObjectDoesNotExist
            else Inr (ObjectEntry_IpfsHash (GetObjects bucket objectName)))"



subsection \<open>The object layer over this ledger store\<close>

text \<open>
  The first \<open>xObjects\<close> works on the ledger store above. Its helpers that talk to the
  IPFS node (\<open>objectToIPFS\<close>, \<open>addObjectToBucketAndIPFS\<close>, \<open>objectFromBucket\<close>,
  \<open>getMinioObjectInfo\<close>) are not among the sources; they do not touch the ledger store
  and are parameters of the model, each returning an error or its result.
\<close>

record Object_data =
  Data :: bytes
  Data_ObjectInfo :: ObjectInfo

record ipfs =
  objectToIPFS :: "Object_data \<Rightarrow> error + string"
  addObjectToBucketAndIPFS :: "string \<Rightarrow> string \<Rightarrow> string \<Rightarrow> error + string"
  objectFromBucket :: "string \<Rightarrow> string \<Rightarrow> error + Object_data"
  getMinioObjectInfo_ipfs :: "LedgerStore \<Rightarrow> string \<Rightarrow> string \<Rightarrow> error + ObjectInfo"

text \<open>
  \<open>GetObject\<close> of this layer ignores the range and writes the whole object; the
  result is the bytes written.
\<close>

definition GetObject_ledger :: "ipfs \<Rightarrow> LedgerStore \<Rightarrow> string \<Rightarrow> string \<Rightarrow> error + bytes" where
  "GetObject_ledger x le bucket object =
     (case ObjectExists le bucket object of
        Some err \<Rightarrow> Inl (minioErr err bucket object [])
      | None \<Rightarrow>
          (case objectFromBucket x bucket object of
             Inl err \<Rightarrow> Inl (minioErr err bucket object [])
           | Inr obj \<Rightarrow> Inr (Data obj)))"


definition DeleteObject_ledger :: "LedgerStore \<Rightarrow> string \<Rightarrow> string \<Rightarrow> error option \<times> LedgerStore" where
  "DeleteObject_ledger le bucket object =
     (case RemoveObject le bucket object of
        (err, le') \<Rightarrow> (toMinioErr err bucket object [], le'))"

text \<open>
  A ledger store with one bucket \<open>b\<close> holding one object \<open>o\<close>, made by the store's own
  methods, and an IPFS node whose every call succeeds.
\<close>

definition store_b_o :: LedgerStore where
  "store_b_o =
     snd (AddObjectToBucket (snd (NewBucket (newLedgerStore None) ''b'' ''Qmb'')) ''b'' ''o'' ''Qmo'')"

definition ipfs_ok :: ipfs where
  "ipfs_ok = \<lparr>
     objectToIPFS = (\<lambda>obj. Inr (''Qm'' @ Data obj)),
     addObjectToBucketAndIPFS = (\<lambda>object objectHash bucket. Inr (''Qm'' @ bucket @ objectHash)),
     objectFromBucket = (\<lambda>bucket object. Inr \<lparr>Data = ''data'',
        Data_ObjectInfo = zeroObjectInfo\<lparr>Bucket := bucket, Name := object, Size := 4\<rparr>\<rparr>),
     getMinioObjectInfo_ipfs = (\<lambda>le bucket object. Inr (zeroObjectInfo\<lparr>Bucket := bucket, Name := object\<rparr>))\<rparr>"

section \<open>Lock order of CopyObject\<close>

text \<open>
  \<open>defer x.ledgerStore.locker.write(dstBucket)()\<close> evaluates \<open>locker.write(dstBucket)\<close>
  at the \<open>defer\<close> statement, which takes the lock, and defers only the call of the unlock
  function it returns. So the locks are taken in the order of the \<open>defer\<close> statements;
  \<open>CopyObject_locks\<close> is that sequence.
\<close>

datatype lock = ReadLock string | WriteLock string

fun lockName :: "lock \<Rightarrow> string" where
  "lockName (ReadLock name) = name"
| "lockName (WriteLock name) = name"

definition CopyObject_locks :: "string \<Rightarrow> string \<Rightarrow> lock list" where
  "CopyObject_locks srcBucket dstBucket =
     (if srcBucket = dstBucket then [WriteLock dstBucket]
      else if strings_Compare srcBucket dstBucket > 0 then [ReadLock srcBucket, WriteLock dstBucket]
      else [WriteLock dstBucket, ReadLock srcBucket])"

section \<open>The DAG syncer of the replication layer\<close>

text \<open>
  \<open>crdtDAGSyncer.Get\<close> asks the node for the block of a CID, recomputes the CID of the
  bytes it received and decodes them. The node client, the hash of
  \<open>blocks.NewBlock(data).Cid()\<close>, \<open>ipld.Decode\<close> and the datastore's \<open>Put\<close> are
  libraries outside the repository: they are the fields of \<open>node_api\<close>. The state of the
  syncer is the set of CIDs its datastore holds.
\<close>

record ('cid, 'node) node_api =
  client_Dag :: "'cid \<Rightarrow> error + bytes"
  block_Cid :: "bytes \<Rightarrow> 'cid"
  ipld_Decode :: "bytes \<Rightarrow> error + 'node"
  ds_Put :: "'cid \<Rightarrow> error option"

definition setBlock ::
  "('cid, 'node) node_api \<Rightarrow> 'cid set \<Rightarrow> 'cid \<Rightarrow> error option \<Rightarrow> error option \<times> 'cid set" where
  "setBlock api d c errs =
     (case errs of
        Some err \<Rightarrow> (Some err, d)
      | None \<Rightarrow> (case ds_Put api c of Some err \<Rightarrow> (Some err, d) | None \<Rightarrow> (None, insert c d)))"

definition Get ::
  "('cid, 'node) node_api \<Rightarrow> 'cid set \<Rightarrow> 'cid \<Rightarrow> ('node option \<times> error option) \<times> 'cid set" where
  "Get api d c =
     (case client_Dag api c of
        Inl err \<Rightarrow> ((None, Some err), d)
      | Inr rawData \<Rightarrow>
          if block_Cid api rawData \<noteq> c then ((None, Some ErrUnexpectedData), d)
          else
            (case ipld_Decode api rawData of
               Inl err \<Rightarrow> (case setBlock api d c (Some err) of (e, d') \<Rightarrow> ((None, e), d'))
             | Inr n \<Rightarrow> (case setBlock api d c None of (e, d') \<Rightarrow> ((Some n, e), d'))))"

text \<open>A node that serves the bytes \<open>hello\<close> for every CID, with the identity as hash.\<close>

definition api_hello :: "(string, string) node_api" where
  "api_hello = \<lparr>client_Dag = (\<lambda>c. Inr ''hello''), block_Cid = (\<lambda>raw. raw),
     ipld_Decode = (\<lambda>raw. Inr raw), ds_Put = (\<lambda>c. None)\<rparr>"

section \<open>The DAG-backed ledger store\<close>

subsection \<open>Records and the content-addressed store\<close>

text \<open>
  The second ledger store keeps each bucket as a record in the remote DAG store and only
  the record's CID locally. CIDs are opaque: they are a type parameter, and the hash is a
  parameter \<open>cidOf\<close> of every operation that stores or checks a block.
  A block is raw object data, an object record or a bucket record; the protocol messages
  are stored as themselves, which takes their serialization to be lossless.
\<close>

datatype 'cid Object = MkObject (DataHash: 'cid) (Object_ObjectInfo: ObjectInfo)

datatype 'cid Bucket =
  MkBucket (Bucket_Name: string) (Created: int) (Location: string)
    (Bucket_Objects: "(string, 'cid) gomap")

datatype 'cid block = RawBlock bytes | ObjectBlock "'cid Object" | BucketBlock "'cid Bucket"

record 'cid dag_store =
  blocks :: "'cid \<rightharpoonup> 'cid block"
  online :: bool

text \<open>
  Modelled from the spec: the DAG client adapter (\<open>ipfsSaveBytes\<close> and its siblings) is
  not among the sources. Section 4.1: \<open>saveBytes\<close> stores a block and returns its CID, and
  fails with \<open>DAGUnavailable\<close> on a transport error; \<open>loadBytes\<close> fails with \<open>NotFound\<close>
  if the node reports absence, \<open>DAGUnavailable\<close> on transport, \<open>CIDMismatch\<close> if the
  returned block's CID is not the requested one; \<open>loadRecord\<close> fails with \<open>Corrupt\<close> if
  the block is not a record of the type asked for.
\<close>

definition saveBlock ::
  "('cid block \<Rightarrow> 'cid) \<Rightarrow> 'cid dag_store \<Rightarrow> 'cid block \<Rightarrow> (error + 'cid) \<times> 'cid dag_store" where
  "saveBlock cidOf dag b =
     (if \<not> online dag then (Inl ErrDAGUnavailable, dag)
      else (Inr (cidOf b), dag\<lparr>blocks := (blocks dag)(cidOf b \<mapsto> b)\<rparr>))"

definition loadBlock :: "('cid block \<Rightarrow> 'cid) \<Rightarrow> 'cid dag_store \<Rightarrow> 'cid \<Rightarrow> error + 'cid block" where
  "loadBlock cidOf dag c =
     (if \<not> online dag then Inl ErrDAGUnavailable
      else
        case blocks dag c of
          None \<Rightarrow> Inl ErrNotFound
        | Some b \<Rightarrow> if cidOf b \<noteq> c then Inl ErrCIDMismatch else Inr b)"

definition ipfsSaveBytes ::
  "('cid block \<Rightarrow> 'cid) \<Rightarrow> 'cid dag_store \<Rightarrow> bytes \<Rightarrow> (error + 'cid) \<times> 'cid dag_store" where
  "ipfsSaveBytes cidOf dag data = saveBlock cidOf dag (RawBlock data)"

definition ipfsBytes :: "('cid block \<Rightarrow> 'cid) \<Rightarrow> 'cid dag_store \<Rightarrow> 'cid \<Rightarrow> error + bytes" where
  "ipfsBytes cidOf dag c =
     (case loadBlock cidOf dag c of
        Inl err \<Rightarrow> Inl err
      | Inr (RawBlock data) \<Rightarrow> Inr data
      | Inr _ \<Rightarrow> Inl ErrCorrupt)"

definition ipfsObject :: "('cid block \<Rightarrow> 'cid) \<Rightarrow> 'cid dag_store \<Rightarrow> 'cid \<Rightarrow> error + 'cid Object" where
  "ipfsObject cidOf dag c =
     (case loadBlock cidOf dag c of
        Inl err \<Rightarrow> Inl err
      | Inr (ObjectBlock obj) \<Rightarrow> Inr obj
      | Inr _ \<Rightarrow> Inl ErrCorrupt)"

definition ipfsBucket :: "('cid block \<Rightarrow> 'cid) \<Rightarrow> 'cid dag_store \<Rightarrow> 'cid \<Rightarrow> error + 'cid Bucket" where
  "ipfsBucket cidOf dag c =
     (case loadBlock cidOf dag c of
        Inl err \<Rightarrow> Inl err
      | Inr (BucketBlock b) \<Rightarrow> Inr b
      | Inr _ \<Rightarrow> Inl ErrCorrupt)"

subsection \<open>Multipart uploads of the in-memory ledger\<close>

text \<open>
  \<open>Ledger.MultipartUploads\<close> is a \<open>map[string]*MultipartUpload\<close> and
  \<open>MultipartUpload.ObjectParts\<close> a \<open>map[string]ObjectPartInfo\<close>; both can be nil, which
  is \<open>None\<close>. Reading a nil map gives the zero value, storing into it panics, and the zero
  value of the pointer type is the nil pointer, whose fields cannot be read.
\<close>

record 'cid ObjectPartInfo =
  Number :: int
  Part_DataHash :: 'cid

record 'cid MultipartUpload =
  Upload_ObjectInfo :: ObjectInfo
  Id :: string
  ObjectParts :: "('cid, 'cid ObjectPartInfo) gomap option"

record 'cid Ledger_memory =
  MultipartUploads :: "(string, 'cid MultipartUpload) gomap option"

definition multipartExists :: "'cid Ledger_memory \<Rightarrow> string \<Rightarrow> error option" where
  "multipartExists m uploadID =
     (case MultipartUploads m of
        None \<Rightarrow> Some ErrInvalidUploadID
      | Some uploads \<Rightarrow>
          (case map_of uploads uploadID of
             None \<Rightarrow> Some (Panic ''invalid memory address or nil pointer dereference'')
           | Some upload \<Rightarrow> if Id upload = [] then Some ErrInvalidUploadID else None))"

definition deleteMultipartID ::
  "'cid Ledger_memory \<Rightarrow> string \<Rightarrow> string \<Rightarrow> error option \<times> 'cid Ledger_memory" where
  "deleteMultipartID m bucketName multipartID =
     (None, m\<lparr>MultipartUploads := map_option (AList.delete multipartID) (MultipartUploads m)\<rparr>)"

subsection \<open>The ledger store\<close>

text \<open>
  The state of the \<open>ledgerStore\<close>: the local index \<open>index\<close> from bucket name to the CID of
  the bucket's current record (the datastore keys \<open>buckets/<name>\<close>), the DAG store, and
  the in-memory ledger \<open>l\<close>.
\<close>

record 'cid ledgerStore =
  index :: "(string, 'cid) gomap"
  dag :: "'cid dag_store"
  l :: "'cid Ledger_memory"

text \<open>
  Modelled from the spec: \<open>ledgerStore.bucketExists\<close>, \<open>assertBucketExits\<close>,
  \<open>getBucketLoaded\<close>, \<open>object\<close>, \<open>putObject\<close>, \<open>PutObject\<close> and \<open>ObjectData\<close> are
  not among the sources. Section 4.5: a bucket exists when the local index has its key;
  reading loads the bucket record from the CID in the index, fails with
  \<open>ObjectNotFound\<close> if the record's \<open>objects\<close> lacks the name, loads the object record
  from \<open>objects[name]\<close> and the data from its \<open>dataHash\<close>; writing saves the object
  record, sets \<open>objects[object]\<close> in a copy of the bucket record, saves that record and
  then puts its CID into the index, in this order, and any failure aborts the operation
  and leaves the blocks written so far. The bucket cache of section 4.4 is write-through
  and holds what the index and the DAG store hold (invariant I3), so the model reads
  through the index.
\<close>

definition bucketExists_store :: "'cid ledgerStore \<Rightarrow> string \<Rightarrow> bool \<times> error option" where
  "bucketExists_store ls bucket = (map_of (index ls) bucket \<noteq> None, None)"

definition assertBucketExits :: "'cid ledgerStore \<Rightarrow> string \<Rightarrow> error option" where
  "assertBucketExits ls bucket =
     (case map_of (index ls) bucket of None \<Rightarrow> Some ErrLedgerBucketDoesNotExist | Some _ \<Rightarrow> None)"

definition getBucketLoaded ::
  "('cid block \<Rightarrow> 'cid) \<Rightarrow> 'cid ledgerStore \<Rightarrow> string \<Rightarrow> error + 'cid Bucket" where
  "getBucketLoaded cidOf ls bucket =
     (case map_of (index ls) bucket of
        None \<Rightarrow> Inl ErrLedgerBucketDoesNotExist
      | Some c \<Rightarrow> ipfsBucket cidOf (dag ls) c)"

text \<open>\<open>object\<close> returns a pointer and an error; \<open>Inr None\<close> is the nil pointer without error.\<close>

definition object ::
  "('cid block \<Rightarrow> 'cid) \<Rightarrow> 'cid ledgerStore \<Rightarrow> string \<Rightarrow> string \<Rightarrow> error + 'cid Object option" where
  "object cidOf ls bucket name =
     (case getBucketLoaded cidOf ls bucket of
        Inl err \<Rightarrow> Inl err
      | Inr b \<Rightarrow>
          (case map_of (Bucket_Objects b) name of
             None \<Rightarrow> Inl ErrLedgerObjectDoesNotExist
           | Some c \<Rightarrow>
               (case ipfsObject cidOf (dag ls) c of
                  Inl err \<Rightarrow> Inl err
                | Inr obj \<Rightarrow> Inr (Some obj))))"

text \<open>The copy of a bucket record with \<open>objects[name]\<close> set to a CID.\<close>

definition bucketWith :: "'cid Bucket \<Rightarrow> string \<Rightarrow> 'cid \<Rightarrow> 'cid Bucket" where
  "bucketWith b name c =
     MkBucket (Bucket_Name b) (Created b) (Location b) (AList.update name c (Bucket_Objects b))"

definition putObject ::
  "('cid block \<Rightarrow> 'cid) \<Rightarrow> 'cid ledgerStore \<Rightarrow> string \<Rightarrow> string \<Rightarrow> 'cid Object
     \<Rightarrow> error option \<times> 'cid ledgerStore" where
  "putObject cidOf ls bucket name obj =
     (case getBucketLoaded cidOf ls bucket of
        Inl err \<Rightarrow> (Some err, ls)
      | Inr b \<Rightarrow>
          (case saveBlock cidOf (dag ls) (ObjectBlock obj) of
             (Inl err, dag1) \<Rightarrow> (Some err, ls\<lparr>dag := dag1\<rparr>)
           | (Inr objCID, dag1) \<Rightarrow>
               let newBucket = bucketWith b name objCID in
               (case saveBlock cidOf dag1 (BucketBlock newBucket) of
                  (Inl err, dag2) \<Rightarrow> (Some err, ls\<lparr>dag := dag2\<rparr>)
                | (Inr bucketCID, dag2) \<Rightarrow>
                    (None, ls\<lparr>dag := dag2, index := AList.update bucket bucketCID (index ls)\<rparr>))))"

definition PutObject_store ::
  "('cid block \<Rightarrow> 'cid) \<Rightarrow> 'cid ledgerStore \<Rightarrow> string \<Rightarrow> string \<Rightarrow> 'cid Object
     \<Rightarrow> error option \<times> 'cid ledgerStore" where
  "PutObject_store cidOf ls bucket name obj = putObject cidOf ls bucket name obj"

definition ObjectData ::
  "('cid block \<Rightarrow> 'cid) \<Rightarrow> 'cid ledgerStore \<Rightarrow> string \<Rightarrow> string \<Rightarrow> error + bytes" where
  "ObjectData cidOf ls bucket name =
     (case object cidOf ls bucket name of
        Inl err \<Rightarrow> Inl err
      | Inr None \<Rightarrow> Inl ErrLedgerObjectDoesNotExist
      | Inr (Some obj) \<Rightarrow> ipfsBytes cidOf (dag ls) (DataHash obj))"

text \<open>
  Modelled from the spec: \<open>CreateBucket\<close> of section 4.5 (the source's bucket creation is
  not among the sources): fail with \<open>BucketExists\<close> if the index has the key, else save a
  fresh record with no objects and put its CID into the index.
\<close>

definition CreateBucket ::
  "('cid block \<Rightarrow> 'cid) \<Rightarrow> int \<Rightarrow> 'cid ledgerStore \<Rightarrow> string \<Rightarrow> string
     \<Rightarrow> error option \<times> 'cid ledgerStore" where
  "CreateBucket cidOf now ls name location =
     (case map_of (index ls) name of
        Some _ \<Rightarrow> (Some ErrLedgerBucketExists, ls)
      | None \<Rightarrow>
          (case saveBlock cidOf (dag ls) (BucketBlock (MkBucket name now location [])) of
             (Inl err, dag1) \<Rightarrow> (Some err, ls\<lparr>dag := dag1\<rparr>)
           | (Inr c, dag1) \<Rightarrow> (None, ls\<lparr>dag := dag1, index := AList.update name c (index ls)\<rparr>)))"

subsection \<open>Multipart operations of the ledger store\<close>

definition AbortMultipartUpload ::
  "'cid ledgerStore \<Rightarrow> string \<Rightarrow> string \<Rightarrow> error option \<times> 'cid ledgerStore" where
  "AbortMultipartUpload ls bucket multipartID =
     (case bucketExists_store ls bucket of
        (ex, Some err) \<Rightarrow> (Some err, ls)
      | (ex, None) \<Rightarrow>
          if \<not> ex then (Some ErrLedgerBucketDoesNotExist, ls)
          else
            (case multipartExists (l ls) multipartID of
               Some err \<Rightarrow> (Some err, ls)
             | None \<Rightarrow>
                 (case deleteMultipartID (l ls) bucket multipartID of
                    (err, m) \<Rightarrow> (err, ls\<lparr>l := m\<rparr>))))"

definition NewMultipartUpload ::
  "'cid ledgerStore \<Rightarrow> string \<Rightarrow> ObjectInfo \<Rightarrow> error option \<times> 'cid ledgerStore" where
  "NewMultipartUpload ls multipartID info =
     (let bucket = Bucket info in
      case assertBucketExits ls bucket of
        Some err \<Rightarrow> (Some err, ls)
      | None \<Rightarrow>
          let uploads = (case MultipartUploads (l ls) of None \<Rightarrow> [] | Some u \<Rightarrow> u);
              upload = \<lparr>Upload_ObjectInfo = info, Id = multipartID, ObjectParts = None\<rparr>
          in (None, ls\<lparr>l := (l ls)\<lparr>MultipartUploads :=
                Some (AList.update multipartID upload uploads)\<rparr>\<rparr>))"

definition PutObjectPart ::
  "'cid ledgerStore \<Rightarrow> string \<Rightarrow> string \<Rightarrow> 'cid \<Rightarrow> string \<Rightarrow> int
     \<Rightarrow> error option \<times> 'cid ledgerStore" where
  "PutObjectPart ls bucketName objectName partHash multipartID partNumber =
     (case assertBucketExits ls bucketName of
        Some err \<Rightarrow> (Some err, ls)
      | None \<Rightarrow>
          (case map_of (case MultipartUploads (l ls) of None \<Rightarrow> [] | Some u \<Rightarrow> u) multipartID of
             None \<Rightarrow> (Some ErrInvalidUploadID, ls)
           | Some mpart \<Rightarrow>
               (case ObjectParts mpart of
                  None \<Rightarrow> (Some (Panic ''assignment to entry in nil map''), ls)
                | Some parts \<Rightarrow>
                    let part = \<lparr>Number = partNumber, Part_DataHash = partHash\<rparr>;
                        mpart' = mpart\<lparr>ObjectParts := Some (AList.update partHash part parts)\<rparr>
                    in (None, ls\<lparr>l := (l ls)\<lparr>MultipartUploads :=
                          map_option (AList.update multipartID mpart') (MultipartUploads (l ls))\<rparr>\<rparr>))))"

definition GetObjectParts ::
  "'cid ledgerStore \<Rightarrow> string \<Rightarrow> error + ('cid, 'cid ObjectPartInfo) gomap option" where
  "GetObjectParts ls uploadID =
     (case multipartExists (l ls) uploadID of
        Some err \<Rightarrow> Inl err
      | None \<Rightarrow>
          (case map_of (case MultipartUploads (l ls) of None \<Rightarrow> [] | Some u \<Rightarrow> u) uploadID of
             None \<Rightarrow> Inr None
           | Some upload \<Rightarrow> Inr (ObjectParts upload)))"

definition MultipartIDExists :: "'cid ledgerStore \<Rightarrow> string \<Rightarrow> error option" where
  "MultipartIDExists ls uploadID = multipartExists (l ls) uploadID"

subsection \<open>Listing\<close>

text \<open>The getter \<open>GetObjectInfo\<close> of a nil \<open>*Object\<close> returns the zero \<open>ObjectInfo\<close>.\<close>

definition GetObjectInfo_ptr :: "'cid Object option \<Rightarrow> ObjectInfo" where
  "GetObjectInfo_ptr obj = (case obj of None \<Rightarrow> zeroObjectInfo | Some ob \<Rightarrow> Object_ObjectInfo ob)"

text \<open>The second loop of \<open>GetObjectInfos\<close>: it returns at the first error.\<close>

fun loadObjectInfos ::
  "('cid block \<Rightarrow> 'cid) \<Rightarrow> 'cid ledgerStore \<Rightarrow> string \<Rightarrow> string list \<Rightarrow> error + ObjectInfo list" where
  "loadObjectInfos cidOf ls bucket [] = Inr []"
| "loadObjectInfos cidOf ls bucket (name # names) =
     (case object cidOf ls bucket name of
        Inl err \<Rightarrow> Inl err
      | Inr obj \<Rightarrow>
          (case loadObjectInfos cidOf ls bucket names of
             Inl err \<Rightarrow> Inl err
           | Inr list \<Rightarrow> Inr (GetObjectInfo_ptr obj # list)))"

text \<open>
  The names \<open>GetObjectInfos\<close> selects: the first loop keeps a name when it has the prefix
  and \<open>strings.Compare(startsFrom, name) >= 0\<close>; then \<open>sort.Strings\<close>, then the cut at
  \<open>max\<close>.
\<close>

definition selectNames :: "string list \<Rightarrow> string \<Rightarrow> string \<Rightarrow> int \<Rightarrow> string list" where
  "selectNames objs prefix startsFrom maxNames =
     (let names = filter (\<lambda>name. strings_HasPrefix name prefix \<and>
                                  strings_Compare startsFrom name \<ge> 0) objs;
          names = sort names
      in if maxNames > 0 \<and> int (length names) > maxNames then take (nat maxNames) names else names)"

definition GetObjectInfos ::
  "('cid block \<Rightarrow> 'cid) \<Rightarrow> 'cid ledgerStore \<Rightarrow> string \<Rightarrow> string \<Rightarrow> string \<Rightarrow> int
     \<Rightarrow> error + ObjectInfo list" where
  "GetObjectInfos cidOf ls bucket prefix startsFrom maxNames =
     (case getBucketLoaded cidOf ls bucket of
        Inl err \<Rightarrow> Inl err
      | Inr b \<Rightarrow>
          loadObjectInfos cidOf ls bucket
            (selectNames (map fst (Bucket_Objects b)) prefix startsFrom maxNames))"

text \<open>
  \<open>GetObjectHashes\<close> also returns the function that releases the read lock, which the
  model leaves out.
\<close>

definition GetObjectHashes ::
  "('cid block \<Rightarrow> 'cid) \<Rightarrow> 'cid ledgerStore \<Rightarrow> string \<Rightarrow> error + (string, 'cid) gomap" where
  "GetObjectHashes cidOf ls bucket =
     (case getBucketLoaded cidOf ls bucket of Inl err \<Rightarrow> Inl err | Inr b \<Rightarrow> Inr (Bucket_Objects b))"

definition GetObjectHash ::
  "('cid block \<Rightarrow> 'cid) \<Rightarrow> 'cid ledgerStore \<Rightarrow> string \<Rightarrow> string \<Rightarrow> error + 'cid" where
  "GetObjectHash cidOf ls bucket name =
     (case GetObjectHashes cidOf ls bucket of
        Inl err \<Rightarrow> Inl err
      | Inr objs \<Rightarrow>
          (case map_of objs name of None \<Rightarrow> Inl ErrLedgerObjectDoesNotExist | Some h \<Rightarrow> Inr h))"

subsection \<open>The object layer over the DAG-backed ledger store\<close>

text \<open>
  Modelled from the spec: \<open>xObjects.getMinioObjectInfo\<close> is not among the sources; it
  projects the stored \<open>ObjectInfo\<close> to the object layer's, which the model does not
  tell apart.
\<close>

definition getMinioObjectInfo :: "ObjectInfo \<Rightarrow> ObjectInfo" where
  "getMinioObjectInfo info = info"

definition ListObjects ::
  "('cid block \<Rightarrow> 'cid) \<Rightarrow> 'cid ledgerStore \<Rightarrow> string \<Rightarrow> string \<Rightarrow> string \<Rightarrow> string \<Rightarrow> int
     \<Rightarrow> error + ObjectInfo list" where
  "ListObjects cidOf ls bucket prefix marker delimiter maxKeys =
     (case GetObjectInfos cidOf ls bucket prefix [] 0 of
        Inl err \<Rightarrow> Inl (minioErr err bucket [] [])
      | Inr objs \<Rightarrow> Inr (map getMinioObjectInfo objs))"

definition ListObjectsV2 ::
  "('cid block \<Rightarrow> 'cid) \<Rightarrow> 'cid ledgerStore \<Rightarrow> string \<Rightarrow> string \<Rightarrow> string \<Rightarrow> string \<Rightarrow> int
     \<Rightarrow> bool \<Rightarrow> string \<Rightarrow> error + ObjectInfo list" where
  "ListObjectsV2 cidOf ls bucket prefix continuationToken delimiter maxKeys fetchOwner startAfter =
     (case GetObjectInfos cidOf ls bucket prefix startAfter 1000 of
        Inl err \<Rightarrow> Inl (minioErr err bucket [] [])
      | Inr objs \<Rightarrow> Inr (map getMinioObjectInfo objs))"

text \<open>
  \<open>GetObject\<close>: \<open>startOffset\<close> and \<open>len\<close> are \<open>int64\<close>, their sum wraps around, and the
  slice expression \<open>objData[startOffset:end]\<close> panics unless
  \<open>0 \<le> startOffset \<le> end \<le> cap(objData)\<close>. The writer takes every byte; the result is
  what was written.
\<close>

definition GetObject ::
  "('cid block \<Rightarrow> 'cid) \<Rightarrow> 'cid ledgerStore \<Rightarrow> string \<Rightarrow> string \<Rightarrow> int \<Rightarrow> int \<Rightarrow> error + bytes" where
  "GetObject cidOf ls bucket name startOffset len =
     (case ObjectData cidOf ls bucket name of
        Inl err \<Rightarrow> Inl (minioErr err bucket name [])
      | Inr objData \<Rightarrow>
          let endOffset = wrap64 (startOffset + len);
              objSize = int (length objData)
          in
          if objSize < endOffset then Inl (InvalidRange startOffset endOffset objSize)
          else if 0 \<le> startOffset \<and> startOffset \<le> endOffset
            then Inr (take (nat (endOffset - startOffset)) (drop (nat startOffset) objData))
          else Inl (Panic ''slice bounds out of range''))"

definition newObjectInfo ::
  "bool \<Rightarrow> int \<Rightarrow> string \<Rightarrow> string \<Rightarrow> int \<Rightarrow> (string, string) gomap \<Rightarrow> ObjectInfo" where
  "newObjectInfo isTest now bucket name dataSize userDefined =
     (let obinfo = zeroObjectInfo\<lparr>Bucket := bucket, Name := name, Size := dataSize\<rparr>;
          obinfo = (if \<not> isTest then obinfo\<lparr>ModTime := now\<rparr> else obinfo)
      in foldl setUserDefined obinfo userDefined)"

definition PutObject ::
  "('cid block \<Rightarrow> 'cid) \<Rightarrow> bool \<Rightarrow> int \<Rightarrow> 'cid ledgerStore \<Rightarrow> string \<Rightarrow> string \<Rightarrow> bytes
     \<Rightarrow> (string, string) gomap \<Rightarrow> (error + ObjectInfo) \<times> 'cid ledgerStore" where
  "PutObject cidOf isTest now ls bucket name data userDefined =
     (case assertBucketExits ls bucket of
        Some err \<Rightarrow> (Inl (minioErr err bucket [] []), ls)
      | None \<Rightarrow>
          let obinfo = newObjectInfo isTest now bucket name (int (length data)) userDefined in
          case ipfsSaveBytes cidOf (dag ls) data of
            (Inl err, dag1) \<Rightarrow> (Inl (minioErr err bucket name []), ls\<lparr>dag := dag1\<rparr>)
          | (Inr dataHash, dag1) \<Rightarrow>
              (case PutObject_store cidOf (ls\<lparr>dag := dag1\<rparr>) bucket name (MkObject dataHash obinfo) of
                 (Some err, ls') \<Rightarrow> (Inl (minioErr err bucket name []), ls')
               | (None, ls') \<Rightarrow> (Inr (getMinioObjectInfo obinfo), ls')))"

text \<open>
  \<open>CopyObject\<close> after its locks: the copy of the source record through \<open>Marshal\<close> and
  \<open>Unmarshal\<close> is the record itself, then the three fields are set.
\<close>

definition CopyObject ::
  "('cid block \<Rightarrow> 'cid) \<Rightarrow> int \<Rightarrow> 'cid ledgerStore \<Rightarrow> string \<Rightarrow> string \<Rightarrow> string \<Rightarrow> string
     \<Rightarrow> (error + ObjectInfo) \<times> 'cid ledgerStore" where
  "CopyObject cidOf now ls srcBucket srcObject dstBucket dstObject =
     (case assertBucketExits ls dstBucket of
        Some err \<Rightarrow> (Inl (minioErr err dstBucket [] []), ls)
      | None \<Rightarrow>
          (case object cidOf ls srcBucket srcObject of
             Inl err \<Rightarrow> (Inl (minioErr err srcBucket srcObject []), ls)
           | Inr None \<Rightarrow> (Inl (minioErr ErrLedgerObjectDoesNotExist srcBucket srcObject []), ls)
           | Inr (Some obj1) \<Rightarrow>
               let obj = MkObject (DataHash obj1)
                     ((Object_ObjectInfo obj1)\<lparr>Name := dstObject, Bucket := dstBucket, ModTime := now\<rparr>)
               in
               (case putObject cidOf ls dstBucket dstObject obj of
                  (Some err, ls') \<Rightarrow> (Inl (minioErr err dstBucket dstObject []), ls')
                | (None, ls') \<Rightarrow> (Inr (getMinioObjectInfo (Object_ObjectInfo obj)), ls'))))"

subsection \<open>A collision-free hash and some stores\<close>

text \<open>
  A CID type on which the hash is the identity up to a constructor, hence collision-free:
  it instantiates \<open>cidOf\<close> where a concrete store is needed.
\<close>

datatype cidv = CidV "cidv block"

definition store_empty :: "cidv ledgerStore" where
  "store_empty = \<lparr>index = [], dag = \<lparr>blocks = Map.empty, online = True\<rparr>,
     l = \<lparr>MultipartUploads = None\<rparr>\<rparr>"

definition store_b :: "cidv ledgerStore" where
  "store_b = snd (CreateBucket CidV 0 store_empty ''b'' ''us-east-1'')"

definition store_hello :: "cidv ledgerStore" where
  "store_hello = snd (PutObject CidV True 0 store_b ''b'' ''k'' ''hello'' [])"

definition store_a_c :: "cidv ledgerStore" where
  "store_a_c =
     snd (PutObject CidV True 0 (snd (PutObject CidV True 0 store_b ''b'' ''a'' ''A'' [])) ''b'' ''c'' ''C'' [])"

definition info_b :: ObjectInfo where
  "info_b = zeroObjectInfo\<lparr>Bucket := ''b'', Name := ''big''\<rparr>"

definition store_upload :: "cidv ledgerStore" where
  "store_upload = snd (NewMultipartUpload store_b ''id1'' info_b)"

section \<open>Properties of the ledger store kept under one datastore key\<close>







lemma store_b_o_value:
  "store_b_o = \<lparr>ds = Some \<lparr>Buckets = [(''b'',
      \<lparr>Objects = [(''o'', \<lparr>ObjectEntry_Name = ''o'', ObjectEntry_IpfsHash = ''Qmo''\<rparr>)],
       BucketEntry_Name = ''b'', BucketEntry_IpfsHash = ''Qmb''\<rparr>)]\<rparr>\<rparr>"
  by (simp add: store_b_o_def AddObjectToBucket_def NewBucket_def newLedgerStore_def
      createLedgerIfNotExist_def getLedger_def putLedger_def bucketExists_def GetBuckets_def
      zeroBucketEntry_def Let_def)


text \<open>
  C3. The specification asks that \<open>DeleteObject(b, o)\<close> followed by \<open>GetObject(b, o)\<close>
  yields \<open>ObjectNotFound\<close>. On the store with bucket \<open>b\<close> and object \<open>o\<close>,
  \<open>DeleteObject\<close> returns \<open>nil\<close> and leaves the store as it was (\<open>RemoveObject\<close> never
  writes the ledger back), so the object still exists and \<open>GetObject\<close> returns its data.
\<close>

theorem DeleteObject_then_GetObject_still_found:
  "DeleteObject_ledger store_b_o ''b'' ''o'' = (None, store_b_o) \<and>
   ObjectExists (snd (DeleteObject_ledger store_b_o ''b'' ''o'')) ''b'' ''o'' = None \<and>
   GetObject_ledger ipfs_ok (snd (DeleteObject_ledger store_b_o ''b'' ''o'')) ''b'' ''o'' = Inr ''data''"
  by (simp add: store_b_o_value DeleteObject_ledger_def RemoveObject_def GetObject_ledger_def
      ObjectExists_def getLedger_def objectExists_def GetBuckets_def GetObjects_def ipfs_ok_def)



section \<open>Properties of the lock order\<close>

text \<open>
  C4, as the specification states it, asks for the two locks in ascending order of
  bucket name. Copying from \<open>a\<close> to \<open>b\<close> takes the write lock on \<open>b\<close> first and the
  read lock on \<open>a\<close> second.
\<close>

theorem CopyObject_locks_not_ascending:
  "CopyObject_locks ''a'' ''b'' = [WriteLock ''b'', ReadLock ''a''] \<and>
   \<not> sorted (map lockName (CopyObject_locks ''a'' ''b''))"
  by (simp add: CopyObject_locks_def strings_Compare_def)

text \<open>
  C4, amended. For two different bucket names \<open>CopyObject\<close> takes exactly the read lock on
  the source and the write lock on the destination, in descending order of bucket name
  (the greater name first), whichever of the two is the source; for equal names it takes
  one lock, the write lock on the destination.
\<close>

theorem CopyObject_locks_descending:
  "(srcBucket \<noteq> dstBucket \<longrightarrow>
      set (CopyObject_locks srcBucket dstBucket) = {ReadLock srcBucket, WriteLock dstBucket} \<and>
      length (CopyObject_locks srcBucket dstBucket) = 2 \<and>
      map lockName (CopyObject_locks srcBucket dstBucket) =
        [max srcBucket dstBucket, min srcBucket dstBucket] \<and>
      sorted_wrt (>) (map lockName (CopyObject_locks srcBucket dstBucket))) \<and>
   (srcBucket = dstBucket \<longrightarrow> CopyObject_locks srcBucket dstBucket = [WriteLock dstBucket])"
  by (auto simp: CopyObject_locks_def strings_Compare_def max_def min_def)

theorem CopyObject_locks_descending_witness:
  "map lockName (CopyObject_locks ''a'' ''b'') = [''b'', ''a''] \<and>
   map lockName (CopyObject_locks ''b'' ''a'') = [''b'', ''a''] \<and>
   CopyObject_locks ''a'' ''a'' = [WriteLock ''a'']"
  using CopyObject_locks_descending [of "''a''" "''b''"]
    CopyObject_locks_descending [of "''b''" "''a''"]
    CopyObject_locks_descending [of "''a''" "''a''"]
  by simp

section \<open>Properties of the DAG syncer\<close>

text \<open>
  C8. \<open>Get\<close> returns a node only if the CID recomputed from the bytes the node server
  sent equals the requested CID (the node is then the decoding of those bytes); if the
  recomputed CID differs, \<open>Get\<close> fails with the error for unexpected data, returns no
  node and does not record the CID as seen.
\<close>

theorem Get_checks_cid:
  "Get api d c = ((n, err), d') \<Longrightarrow>
     (n \<noteq> None \<longrightarrow>
        (\<exists>raw. client_Dag api c = Inr raw \<and> block_Cid api raw = c \<and>
               ipld_Decode api raw = Inr (the n))) \<and>
     (\<forall>raw. client_Dag api c = Inr raw \<and> block_Cid api raw \<noteq> c \<longrightarrow>
        n = None \<and> err = Some ErrUnexpectedData \<and> d' = d)"
  by (auto simp: Get_def setBlock_def split: sum.splits if_splits option.splits prod.splits)

theorem Get_checks_cid_witness:
  "Get api_hello {} ''hello'' = ((Some ''hello'', None), {''hello''}) \<and>
   block_Cid api_hello ''hello'' = ''hello'' \<and>
   Get api_hello {} ''other'' = ((None, Some ErrUnexpectedData), {}) \<and>
   client_Dag api_hello ''other'' = Inr ''hello'' \<and> block_Cid api_hello ''hello'' \<noteq> ''other''"
proof -
  have g1: "Get api_hello {} ''hello'' = ((Some ''hello'', None), {''hello''})"
    by (simp add: Get_def setBlock_def api_hello_def)
  have g2: "Get api_hello {} ''other'' = ((None, Some ErrUnexpectedData), {})"
    by (simp add: Get_def setBlock_def api_hello_def)
  from Get_checks_cid [OF g1] Get_checks_cid [OF g2] g1 g2 show ?thesis
    by (simp add: api_hello_def)
qed

section \<open>Properties of the multipart operations\<close>

lemma store_b_value:
  "store_b = \<lparr>index = [(''b'', CidV (BucketBlock (MkBucket ''b'' 0 ''us-east-1'' [])))],
     dag = \<lparr>blocks = [CidV (BucketBlock (MkBucket ''b'' 0 ''us-east-1'' [])) \<mapsto>
                        BucketBlock (MkBucket ''b'' 0 ''us-east-1'' [])],
            online = True\<rparr>,
     l = \<lparr>MultipartUploads = None\<rparr>\<rparr>"
  by (simp add: store_b_def CreateBucket_def store_empty_def saveBlock_def)

lemma store_upload_value:
  "store_upload = store_b\<lparr>l := \<lparr>MultipartUploads =
     Some [(''id1'', \<lparr>Upload_ObjectInfo = info_b, Id = ''id1'', ObjectParts = None\<rparr>)]\<rparr>\<rparr>"
  by (simp add: store_upload_def NewMultipartUpload_def assertBucketExits_def store_b_value
      info_b_def zeroObjectInfo_def)

lemma AbortMultipartUpload_removes:
  "AbortMultipartUpload ls b uploadID = (None, ls') \<Longrightarrow>
     (\<exists>uploads. MultipartUploads (l ls') = Some uploads \<and> map_of uploads uploadID = None) \<and>
     index ls' = index ls \<and> assertBucketExits ls' b = None"
  by (auto simp: AbortMultipartUpload_def bucketExists_store_def multipartExists_def
      deleteMultipartID_def assertBucketExits_def delete_conv'
      split: option.splits if_splits prod.splits)

lemma PutObjectPart_removed:
  "map_of (case MultipartUploads (l ls) of None \<Rightarrow> [] | Some u \<Rightarrow> u) uploadID = None \<Longrightarrow>
   PutObjectPart ls b ob h uploadID n =
     (if assertBucketExits ls b = None then Some ErrInvalidUploadID
      else Some ErrLedgerBucketDoesNotExist, ls)"
  by (auto simp: PutObjectPart_def assertBucketExits_def split: option.splits)

lemma AbortMultipartUpload_store_upload:
  "AbortMultipartUpload store_upload ''b'' ''id1'' =
     (None, store_b\<lparr>l := \<lparr>MultipartUploads = Some []\<rparr>\<rparr>)"
  by (simp add: store_upload_value AbortMultipartUpload_def multipartExists_def
      bucketExists_store_def store_b_value deleteMultipartID_def)

text \<open>
  C9. The specification asks that every multipart operation returns a value or an error.
  On the store with bucket \<open>b\<close>, \<open>NewMultipartUpload\<close> of \<open>id1\<close> succeeds and leaves
  the upload's parts map nil, so the next \<open>PutObjectPart\<close> for \<open>id1\<close> panics on the
  store into that map; and with \<open>id1\<close> in the uploads map, \<open>MultipartIDExists\<close>,
  \<open>AbortMultipartUpload\<close> and \<open>GetObjectParts\<close> for the absent \<open>id2\<close> read the field
  \<open>Id\<close> through a nil pointer and panic.
\<close>

theorem multipart_operations_panic:
  "fst (NewMultipartUpload store_b ''id1'' info_b) = None \<and>
   PutObjectPart store_upload ''b'' ''big'' (CidV (RawBlock ''part'')) ''id1'' 1 =
     (Some (Panic ''assignment to entry in nil map''), store_upload) \<and>
   MultipartIDExists store_upload ''id2'' =
     Some (Panic ''invalid memory address or nil pointer dereference'') \<and>
   AbortMultipartUpload store_upload ''b'' ''id2'' =
     (Some (Panic ''invalid memory address or nil pointer dereference''), store_upload) \<and>
   GetObjectParts store_upload ''id2'' =
     Inl (Panic ''invalid memory address or nil pointer dereference'')"
  by (simp add: store_upload_value PutObjectPart_def MultipartIDExists_def AbortMultipartUpload_def
      GetObjectParts_def multipartExists_def bucketExists_store_def assertBucketExits_def
      store_b_value NewMultipartUpload_def info_b_def zeroObjectInfo_def)

text \<open>
  What holds after an abort: the id is no longer among the uploads, the buckets are as
  before, and \<open>PutObjectPart\<close> with that id fails and changes nothing, with
  \<open>ErrInvalidUploadID\<close> when the bucket it names exists (as the aborted upload's does)
  and with the ledger's bucket error otherwise, since it tests the bucket first.
\<close>

lemma AbortMultipartUpload_then_PutObjectPart:
  assumes "AbortMultipartUpload ls b uploadID = (None, ls')"
  shows "map_of (case MultipartUploads (l ls') of None \<Rightarrow> [] | Some u \<Rightarrow> u) uploadID = None \<and>
         index ls' = index ls \<and>
         PutObjectPart ls' b ob h uploadID n = (Some ErrInvalidUploadID, ls') \<and>
         PutObjectPart ls' b' ob h uploadID n =
           (if assertBucketExits ls' b' = None then Some ErrInvalidUploadID
            else Some ErrLedgerBucketDoesNotExist, ls')"
proof -
  from AbortMultipartUpload_removes [OF assms]
  have gone: "map_of (case MultipartUploads (l ls') of None \<Rightarrow> [] | Some u \<Rightarrow> u) uploadID = None"
    and ix: "index ls' = index ls" and ex: "assertBucketExits ls' b = None"
    by auto
  show ?thesis
    using gone ix ex by (simp add: PutObjectPart_removed)
qed

text \<open>
  What does not hold: after every successful abort the uploads map is not nil and lacks
  the id, so \<open>multipartExists\<close> reads the field \<open>Id\<close> through a nil pointer, and the
  three operations that go through it panic.
\<close>

lemma AbortMultipartUpload_then_multipartExists:
  assumes "AbortMultipartUpload ls b uploadID = (None, ls')"
  shows "MultipartIDExists ls' uploadID =
           Some (Panic ''invalid memory address or nil pointer dereference'') \<and>
         GetObjectParts ls' uploadID =
           Inl (Panic ''invalid memory address or nil pointer dereference'') \<and>
         AbortMultipartUpload ls' b uploadID =
           (Some (Panic ''invalid memory address or nil pointer dereference''), ls')"
proof -
  from AbortMultipartUpload_removes [OF assms] obtain uploads where
    u: "MultipartUploads (l ls') = Some uploads" and gone: "map_of uploads uploadID = None"
    and ix: "index ls' = index ls" by blast
  from assms have ex: "map_of (index ls) b \<noteq> None"
    by (auto simp: AbortMultipartUpload_def bucketExists_store_def split: if_splits)
  have m: "multipartExists (l ls') uploadID =
      Some (Panic ''invalid memory address or nil pointer dereference'')"
    by (simp add: multipartExists_def u gone)
  show ?thesis
    using ex by (simp add: MultipartIDExists_def GetObjectParts_def AbortMultipartUpload_def
        bucketExists_store_def m ix)
qed

text \<open>
  C6. The specification asks that every further multipart operation with an aborted id
  fails with \<open>InvalidUploadID\<close>. On the store with bucket \<open>b\<close> and the upload \<open>id1\<close>,
  \<open>AbortMultipartUpload\<close> of \<open>id1\<close> succeeds; after it \<open>PutObjectPart\<close> with \<open>id1\<close>
  fails with \<open>ErrInvalidUploadID\<close>, as asked, but \<open>MultipartIDExists\<close>,
  \<open>GetObjectParts\<close> and a second \<open>AbortMultipartUpload\<close> with \<open>id1\<close> panic.
\<close>

theorem aborted_id_operations_panic:
  "AbortMultipartUpload store_upload ''b'' ''id1'' =
     (None, store_b\<lparr>l := \<lparr>MultipartUploads = Some []\<rparr>\<rparr>) \<and>
   PutObjectPart (store_b\<lparr>l := \<lparr>MultipartUploads = Some []\<rparr>\<rparr>) ''b'' ''big''
       (CidV (RawBlock ''part'')) ''id1'' 1 =
     (Some ErrInvalidUploadID, store_b\<lparr>l := \<lparr>MultipartUploads = Some []\<rparr>\<rparr>) \<and>
   MultipartIDExists (store_b\<lparr>l := \<lparr>MultipartUploads = Some []\<rparr>\<rparr>) ''id1'' =
     Some (Panic ''invalid memory address or nil pointer dereference'') \<and>
   GetObjectParts (store_b\<lparr>l := \<lparr>MultipartUploads = Some []\<rparr>\<rparr>) ''id1'' =
     Inl (Panic ''invalid memory address or nil pointer dereference'') \<and>
   AbortMultipartUpload (store_b\<lparr>l := \<lparr>MultipartUploads = Some []\<rparr>\<rparr>) ''b'' ''id1'' =
     (Some (Panic ''invalid memory address or nil pointer dereference''),
      store_b\<lparr>l := \<lparr>MultipartUploads = Some []\<rparr>\<rparr>)"
proof -
  have "PutObjectPart (store_b\<lparr>l := \<lparr>MultipartUploads = Some []\<rparr>\<rparr>) ''b'' ''big''
       (CidV (RawBlock ''part'')) ''id1'' 1 =
     (Some ErrInvalidUploadID, store_b\<lparr>l := \<lparr>MultipartUploads = Some []\<rparr>\<rparr>)"
    by (simp add: PutObjectPart_def assertBucketExits_def store_b_value)
  moreover have "MultipartIDExists (store_b\<lparr>l := \<lparr>MultipartUploads = Some []\<rparr>\<rparr>) ''id1'' =
     Some (Panic ''invalid memory address or nil pointer dereference'')"
    by (simp add: MultipartIDExists_def multipartExists_def)
  moreover have "GetObjectParts (store_b\<lparr>l := \<lparr>MultipartUploads = Some []\<rparr>\<rparr>) ''id1'' =
     Inl (Panic ''invalid memory address or nil pointer dereference'')"
    by (simp add: GetObjectParts_def multipartExists_def)
  moreover have "AbortMultipartUpload (store_b\<lparr>l := \<lparr>MultipartUploads = Some []\<rparr>\<rparr>) ''b'' ''id1'' =
     (Some (Panic ''invalid memory address or nil pointer dereference''),
      store_b\<lparr>l := \<lparr>MultipartUploads = Some []\<rparr>\<rparr>)"
    by (simp add: AbortMultipartUpload_def multipartExists_def bucketExists_store_def
        store_b_value)
  ultimately show ?thesis
    using AbortMultipartUpload_store_upload by blast
qed

section \<open>Properties of the DAG-backed ledger store\<close>

lemma saveBlock_load:
  "saveBlock cidOf dg b = (Inr c, dg') \<Longrightarrow> loadBlock cidOf dg' c = Inr b"
  by (auto simp: saveBlock_def loadBlock_def split: if_splits)

lemma saveBlock_preserves:
  "inj cidOf \<Longrightarrow> saveBlock cidOf dg b = (Inr c, dg') \<Longrightarrow> loadBlock cidOf dg c0 = Inr b0 \<Longrightarrow>
     loadBlock cidOf dg' c0 = Inr b0"
  by (auto simp: saveBlock_def loadBlock_def inj_def split: if_splits option.splits)

lemma saveBlock_cid: "saveBlock cidOf dg b = (Inr c, dg') \<Longrightarrow> c = cidOf b"
  by (auto simp: saveBlock_def split: if_splits)

lemma setUserDefined_fields:
  "Size (setUserDefined oi kv) = Size oi" "Name (setUserDefined oi kv) = Name oi"
  "Bucket (setUserDefined oi kv) = Bucket oi" "ModTime (setUserDefined oi kv) = ModTime oi"
  by (simp_all add: setUserDefined_def Let_def)

lemma foldl_setUserDefined_fields:
  "Size (foldl setUserDefined oi ud) = Size oi \<and> Name (foldl setUserDefined oi ud) = Name oi \<and>
   Bucket (foldl setUserDefined oi ud) = Bucket oi \<and>
   ModTime (foldl setUserDefined oi ud) = ModTime oi"
  by (induction ud arbitrary: oi) (simp_all add: setUserDefined_fields)

lemma newObjectInfo_Size: "Size (newObjectInfo isTest now b n sz ud) = sz"
  by (simp add: newObjectInfo_def Let_def foldl_setUserDefined_fields)

text \<open>What a successful \<open>putObject\<close> has done.\<close>

lemma putObject_success:
  assumes "putObject cidOf ls b n obj = (None, ls')"
  shows "\<exists>bk dag1. getBucketLoaded cidOf ls b = Inr bk \<and>
    saveBlock cidOf (dag ls) (ObjectBlock obj) = (Inr (cidOf (ObjectBlock obj)), dag1) \<and>
    saveBlock cidOf dag1 (BucketBlock (bucketWith bk n (cidOf (ObjectBlock obj))))
       = (Inr (cidOf (BucketBlock (bucketWith bk n (cidOf (ObjectBlock obj))))), dag ls') \<and>
    index ls' =
      AList.update b (cidOf (BucketBlock (bucketWith bk n (cidOf (ObjectBlock obj))))) (index ls) \<and>
    l ls' = l ls"
proof -
  from assms obtain bk where g: "getBucketLoaded cidOf ls b = Inr bk"
    by (auto simp: putObject_def split: sum.splits)
  from assms g obtain objCID dag1 where
    s1: "saveBlock cidOf (dag ls) (ObjectBlock obj) = (Inr objCID, dag1)"
    by (auto simp: putObject_def Let_def split: sum.splits prod.splits)
  have c1: "objCID = cidOf (ObjectBlock obj)" using s1 by (rule saveBlock_cid)
  from assms g s1 obtain bucketCID dag2 where
    s2: "saveBlock cidOf dag1 (BucketBlock (bucketWith bk n objCID)) = (Inr bucketCID, dag2)"
    and ls': "ls' = ls\<lparr>dag := dag2, index := AList.update b bucketCID (index ls)\<rparr>"
    by (auto simp: putObject_def Let_def split: sum.splits prod.splits)
  have c2: "bucketCID = cidOf (BucketBlock (bucketWith bk n objCID))"
    using s2 by (rule saveBlock_cid)
  show ?thesis
    using g s1 s2 c1 c2 ls' by auto
qed

lemma putObject_preserves_blocks:
  assumes i: "inj cidOf" and p: "putObject cidOf ls b n obj = (None, ls')"
    and ld: "loadBlock cidOf (dag ls) c0 = Inr b0"
  shows "loadBlock cidOf (dag ls') c0 = Inr b0"
proof -
  from putObject_success [OF p] obtain bk dag1 where
    s1: "saveBlock cidOf (dag ls) (ObjectBlock obj) = (Inr (cidOf (ObjectBlock obj)), dag1)" and
    s2: "saveBlock cidOf dag1 (BucketBlock (bucketWith bk n (cidOf (ObjectBlock obj))))
       = (Inr (cidOf (BucketBlock (bucketWith bk n (cidOf (ObjectBlock obj))))), dag ls')"
    by blast
  have "loadBlock cidOf dag1 c0 = Inr b0"
    by (rule saveBlock_preserves [OF i s1 ld])
  then show ?thesis
    by (rule saveBlock_preserves [OF i s2])
qed

lemma putObject_bucket:
  assumes p: "putObject cidOf ls b n obj = (None, ls')"
  shows "\<exists>bk. getBucketLoaded cidOf ls b = Inr bk \<and>
     getBucketLoaded cidOf ls' b = Inr (bucketWith bk n (cidOf (ObjectBlock obj)))"
proof -
  from putObject_success [OF p] obtain bk dag1 where
    g: "getBucketLoaded cidOf ls b = Inr bk" and
    s2: "saveBlock cidOf dag1 (BucketBlock (bucketWith bk n (cidOf (ObjectBlock obj))))
       = (Inr (cidOf (BucketBlock (bucketWith bk n (cidOf (ObjectBlock obj))))), dag ls')" and
    ix: "index ls' =
      AList.update b (cidOf (BucketBlock (bucketWith bk n (cidOf (ObjectBlock obj))))) (index ls)"
    by blast
  have "loadBlock cidOf (dag ls') (cidOf (BucketBlock (bucketWith bk n (cidOf (ObjectBlock obj)))))
      = Inr (BucketBlock (bucketWith bk n (cidOf (ObjectBlock obj))))"
    using s2 by (rule saveBlock_load)
  then have "getBucketLoaded cidOf ls' b = Inr (bucketWith bk n (cidOf (ObjectBlock obj)))"
    by (simp add: getBucketLoaded_def ix update_conv' ipfsBucket_def)
  with g show ?thesis by blast
qed

lemma putObject_object:
  assumes i: "inj cidOf" and p: "putObject cidOf ls b n obj = (None, ls')"
  shows "object cidOf ls' b n = Inr (Some obj)"
proof -
  from putObject_success [OF p] obtain bk dag1 where
    s1: "saveBlock cidOf (dag ls) (ObjectBlock obj) = (Inr (cidOf (ObjectBlock obj)), dag1)" and
    s2: "saveBlock cidOf dag1 (BucketBlock (bucketWith bk n (cidOf (ObjectBlock obj))))
       = (Inr (cidOf (BucketBlock (bucketWith bk n (cidOf (ObjectBlock obj))))), dag ls')"
    by blast
  from putObject_bucket [OF p] obtain bk' where
    g: "getBucketLoaded cidOf ls' b = Inr (bucketWith bk' n (cidOf (ObjectBlock obj)))" by blast
  have "loadBlock cidOf dag1 (cidOf (ObjectBlock obj)) = Inr (ObjectBlock obj)"
    using s1 by (rule saveBlock_load)
  then have o: "loadBlock cidOf (dag ls') (cidOf (ObjectBlock obj)) = Inr (ObjectBlock obj)"
    by (rule saveBlock_preserves [OF i s2])
  show ?thesis
    by (simp add: object_def g bucketWith_def update_conv' ipfsObject_def o)
qed

lemma inj_CidV: "inj CidV"
  by (simp add: inj_def)

lemma PutObject_ObjectData:
  assumes inj: "inj cidOf"
    and put: "PutObject cidOf isTest now ls b n data ud = (Inr info, ls')"
  shows "ObjectData cidOf ls' b n = Inr data \<and>
         info = newObjectInfo isTest now b n (int (length data)) ud \<and>
         (\<exists>dataHash. object cidOf ls' b n = Inr (Some (MkObject dataHash info)))"
proof -
  let ?oi = "newObjectInfo isTest now b n (int (length data)) ud"
  from put obtain dataHash dag1 where
    s0: "saveBlock cidOf (dag ls) (RawBlock data) = (Inr dataHash, dag1)"
    and po: "putObject cidOf (ls\<lparr>dag := dag1\<rparr>) b n (MkObject dataHash ?oi) = (None, ls')"
    and info: "info = ?oi"
    by (auto simp: PutObject_def PutObject_store_def ipfsSaveBytes_def getMinioObjectInfo_def Let_def
        split: option.splits sum.splits prod.splits)
  have "loadBlock cidOf dag1 dataHash = Inr (RawBlock data)"
    using s0 by (rule saveBlock_load)
  then have "loadBlock cidOf (dag (ls\<lparr>dag := dag1\<rparr>)) dataHash = Inr (RawBlock data)" by simp
  then have raw: "loadBlock cidOf (dag ls') dataHash = Inr (RawBlock data)"
    by (rule putObject_preserves_blocks [OF inj po])
  have ob: "object cidOf ls' b n = Inr (Some (MkObject dataHash ?oi))"
    using putObject_object [OF inj po] .
  have od: "ObjectData cidOf ls' b n = Inr data"
    by (simp add: ObjectData_def ob ipfsBytes_def raw)
  show ?thesis using od ob info by simp
qed

lemmas store_evals = PutObject_def assertBucketExits_def ipfsSaveBytes_def saveBlock_def
  PutObject_store_def putObject_def getBucketLoaded_def ipfsBucket_def loadBlock_def
  newObjectInfo_def bucketWith_def getMinioObjectInfo_def zeroObjectInfo_def Let_def
  CopyObject_def object_def ipfsObject_def GetObjectHash_def GetObjectHashes_def

lemma PutObject_store_hello:
  "PutObject CidV True 0 store_b ''b'' ''k'' ''hello'' [] =
     (Inr (zeroObjectInfo\<lparr>Bucket := ''b'', Name := ''k'', Size := 5\<rparr>), store_hello)"
  by (simp add: store_hello_def store_b_value store_evals)

lemma ObjectData_store_hello: "ObjectData CidV store_hello ''b'' ''k'' = Inr ''hello''"
  using PutObject_store_hello PutObject_ObjectData [OF inj_CidV] by blast

text \<open>\<open>GetObject\<close> on the ranges that are ranges: no negative number, no overflow.\<close>

lemma GetObject_range:
  assumes "ObjectData cidOf ls b n = Inr objData"
    and "0 \<le> startOffset" and "0 \<le> len" and "startOffset + len < 2 ^ 63"
  shows "GetObject cidOf ls b n startOffset len =
     (if startOffset + len > int (length objData)
      then Inl (InvalidRange startOffset (startOffset + len) (int (length objData)))
      else Inr (take (nat len) (drop (nat startOffset) objData)))"
proof -
  have "wrap64 (startOffset + len) = startOffset + len"
    using assms by (simp add: wrap64_def)
  then show ?thesis using assms by (simp add: GetObject_def Let_def)
qed

text \<open>
  C2. With a collision-free hash and data of a length an \<open>int64\<close> holds, after
  \<open>PutObject(b, o, bytes)\<close> has succeeded \<open>GetObject(b, o)\<close> over the full range writes
  exactly \<open>bytes\<close>, and the size in the \<open>ObjectInfo\<close> returned and in the one stored is
  the length of \<open>bytes\<close>.
\<close>

theorem PutObject_then_GetObject:
  assumes inj: "inj cidOf"
    and put: "PutObject cidOf isTest now ls b n data ud = (Inr info, ls')"
    and len: "int (length data) < 2 ^ 63"
  shows "GetObject cidOf ls' b n 0 (int (length data)) = Inr data \<and>
         Size info = int (length data) \<and>
         (\<exists>obj. object cidOf ls' b n = Inr (Some obj) \<and>
                Size (Object_ObjectInfo obj) = int (length data))"
proof -
  from PutObject_ObjectData [OF inj put] obtain dataHash where
    od: "ObjectData cidOf ls' b n = Inr data"
    and info: "info = newObjectInfo isTest now b n (int (length data)) ud"
    and ob: "object cidOf ls' b n = Inr (Some (MkObject dataHash info))"
    by blast
  have "GetObject cidOf ls' b n 0 (int (length data)) = Inr data"
    using GetObject_range [OF od, of 0 "int (length data)"] len by simp
  moreover have "Size info = int (length data)"
    by (simp add: info newObjectInfo_Size)
  ultimately show ?thesis using ob by simp
qed

theorem PutObject_then_GetObject_witness:
  "inj CidV \<and>
   PutObject CidV True 0 store_b ''b'' ''k'' ''hello'' [] =
     (Inr (zeroObjectInfo\<lparr>Bucket := ''b'', Name := ''k'', Size := 5\<rparr>), store_hello) \<and>
   GetObject CidV store_hello ''b'' ''k'' 0 5 = Inr ''hello''"
  using PutObject_then_GetObject [OF inj_CidV PutObject_store_hello] inj_CidV PutObject_store_hello
  by simp

text \<open>
  C7. The specification asks that, for every requested range, \<open>GetObject\<close> fails with
  \<open>InvalidRange\<close> or writes the bytes of the range. On the object \<open>hello\<close> the range
  with offset 0 and length -1 passes the test against the size and the slice expression
  panics; so do offset -1 with length 1, and the greatest offset with length 1, whose
  sum wraps around.
\<close>

theorem GetObject_range_panics:
  "ObjectData CidV store_hello ''b'' ''k'' = Inr ''hello'' \<and>
   GetObject CidV store_hello ''b'' ''k'' 0 (- 1) = Inl (Panic ''slice bounds out of range'') \<and>
   GetObject CidV store_hello ''b'' ''k'' (- 1) 1 = Inl (Panic ''slice bounds out of range'') \<and>
   GetObject CidV store_hello ''b'' ''k'' 9223372036854775807 1 =
     Inl (Panic ''slice bounds out of range'')"
  by (simp add: GetObject_def ObjectData_store_hello wrap64_def)

subsection \<open>Listing\<close>

lemma strings_Compare_ge: "strings_Compare a b \<ge> 0 \<longleftrightarrow> b \<le> a"
  by (auto simp: strings_Compare_def)

lemma selectNames_below:
  assumes "name \<in> set (selectNames objs prefix startsFrom maxNames)"
  shows "name \<le> startsFrom \<and> strings_HasPrefix name prefix"
proof -
  let ?kept = "filter (\<lambda>name. strings_HasPrefix name prefix \<and>
                                 strings_Compare startsFrom name \<ge> 0) objs"
  from assms have "name \<in> set (sort ?kept)"
    by (auto simp: selectNames_def Let_def dest: in_set_takeD split: if_splits)
  then have "name \<in> set ?kept" by simp
  then show ?thesis by (simp add: strings_Compare_ge)
qed

text \<open>
  C1. The specification asks that every name listed is greater than \<open>startAfter\<close>. The
  bucket \<open>b\<close> holds the objects \<open>a\<close> and \<open>c\<close>; listing it from \<open>b\<close> returns \<open>a\<close>,
  which is smaller, and not \<open>c\<close>, also through \<open>ListObjectsV2\<close> with \<open>startAfter\<close>
  \<open>b\<close>; and \<open>ListObjects\<close>, which lists from the empty name, returns nothing.
\<close>

theorem GetObjectInfos_lists_names_below:
  "GetObjectInfos CidV store_a_c ''b'' [] ''b'' 0 =
     Inr [zeroObjectInfo\<lparr>Bucket := ''b'', Name := ''a'', Size := 1\<rparr>] \<and>
   ''a'' < ''b'' \<and>
   GetObjectHashes CidV store_a_c ''b'' =
     Inr [(''a'', CidV (ObjectBlock (MkObject (CidV (RawBlock ''A''))
                   (zeroObjectInfo\<lparr>Bucket := ''b'', Name := ''a'', Size := 1\<rparr>)))),
          (''c'', CidV (ObjectBlock (MkObject (CidV (RawBlock ''C''))
                   (zeroObjectInfo\<lparr>Bucket := ''b'', Name := ''c'', Size := 1\<rparr>))))] \<and>
   ListObjectsV2 CidV store_a_c ''b'' [] [] [] 0 False ''b'' =
     Inr [zeroObjectInfo\<lparr>Bucket := ''b'', Name := ''a'', Size := 1\<rparr>] \<and>
   ListObjects CidV store_a_c ''b'' [] [] [] 0 = Inr []"
  by (simp add: store_a_c_def store_b_value store_evals GetObjectInfos_def ListObjects_def
      ListObjectsV2_def selectNames_def strings_HasPrefix_def strings_Compare_def
      GetObjectInfo_ptr_def)

subsection \<open>Copying\<close>









end
